theory Spec2Isabelle
  imports Complex_Main "HOL-Library.Word"
begin

section \<open>The credit-link particle field (assets/js/CreditLink.js)\<close>

text \<open>
  JavaScript numbers are modelled as real numbers: the development verifies the
  arithmetic the code writes down, not its rounding to IEEE doubles, except where a
  floor makes the rounding visible (the sampling stride). A nullable number
  (the mouse coordinates start as \<^verbatim>\<open>null\<close>) is a \<open>real option\<close>; arithmetic on
  \<^verbatim>\<open>null\<close> coerces it to \<open>0\<close>, which \<open>to_number\<close> writes out. \<^verbatim>\<open>Math.random()\<close>
  is a stream \<open>rnd :: nat \<Rightarrow> real\<close> of the values the calls return, in call order.
\<close>

subsection \<open>Numbers\<close>

definition to_number :: "real option \<Rightarrow> real" where
  "to_number v = (case v of None \<Rightarrow> 0 | Some r \<Rightarrow> r)"

text \<open>\<^verbatim>\<open>Math.atan2(y, x)\<close>, with its result in \<open>(-\<pi>, \<pi>]\<close> and \<open>atan2(0, 0) = 0\<close>.\<close>

definition atan2 :: "real \<Rightarrow> real \<Rightarrow> real" where
  "atan2 y x =
     (if 0 < x then arctan (y / x)
      else if x < 0 then (if 0 \<le> y then arctan (y / x) + pi else arctan (y / x) - pi)
      else if 0 < y then pi / 2
      else if y < 0 then - (pi / 2)
      else 0)"

subsection \<open>Particle\<close>

record vec =
  vec_x :: real
  vec_y :: real

text \<open>
  The fields of \<^verbatim>\<open>Particle\<close>; \<^verbatim>\<open>x\<close>, \<^verbatim>\<open>y\<close> and \<^verbatim>\<open>size\<close> are named
  \<open>p_x\<close>, \<open>p_y\<close> and \<open>p_size\<close>.
\<close>

record particle =
  p_x :: real
  p_y :: real
  p_size :: real
  baseX :: real
  baseY :: real
  density :: real
  velocity :: vec
  alpha :: real
  noise :: vec
  noiseOffset :: real

text \<open>
  The constructor draws four random numbers, in this order: density, noise.x, noise.y,
  noiseOffset.
\<close>

definition Particle :: "real \<Rightarrow> real \<Rightarrow> real \<Rightarrow> real \<Rightarrow> real \<Rightarrow> real \<Rightarrow> particle" where
  "Particle x y r1 r2 r3 r4 =
     \<lparr> p_x = x, p_y = y, p_size = 1.25,
       baseX = x, baseY = y,
       density = r1 * 10 + 1,
       velocity = \<lparr> vec_x = 0, vec_y = 0 \<rparr>,
       alpha = 1,
       noise = \<lparr> vec_x = r2 * 0.5 - 0.25, vec_y = r3 * 0.5 - 0.25 \<rparr>,
       noiseOffset = r4 * 1000 \<rparr>"

definition update ::
  "particle \<Rightarrow> real option \<Rightarrow> real option \<Rightarrow> real \<Rightarrow> bool \<Rightarrow> real \<Rightarrow> real \<Rightarrow> real \<Rightarrow> particle" where
  "update p mouseX mouseY currentTime isExpl explosionStart explosionDur fadeOutDur =
     (if isExpl then
        (let p1 = p\<lparr> p_x := p_x p + vec_x (velocity p), p_y := p_y p + vec_y (velocity p) \<rparr>;
             elapsedTime = currentTime - explosionStart
         in if elapsedTime > explosionDur - fadeOutDur
            then p1\<lparr> alpha := 1 - (elapsedTime - (explosionDur - fadeOutDur)) / fadeOutDur \<rparr>
            else p1)
      else
        (let dx = to_number mouseX - p_x p;
             dy = to_number mouseY - p_y p;
             distance = sqrt (dx * dx + dy * dy);
             maxDistance = 35
         in if distance < maxDistance then
              (let force = (maxDistance - distance) / maxDistance;
                   angle = atan2 dy dx;
                   noiseX = sin (currentTime * 0.002 + noiseOffset p) * vec_x (noise p);
                   noiseY = cos (currentTime * 0.002 + noiseOffset p) * vec_y (noise p);
                   velx = vec_x (velocity p) + (cos angle * force * 0.1 + noiseX);
                   vely = vec_y (velocity p) + (sin angle * force * 0.1 + noiseY)
               in p\<lparr> p_x := p_x p + velx, p_y := p_y p + vely,
                     velocity := \<lparr> vec_x = velx * 0.9, vec_y = vely * 0.9 \<rparr> \<rparr>)
            else
              (let returnForce = 0.05;
                   velx = vec_x (velocity p) + (baseX p - p_x p) * returnForce;
                   vely = vec_y (velocity p) + (baseY p - p_y p) * returnForce
               in p\<lparr> p_x := p_x p + velx, p_y := p_y p + vely,
                     velocity := \<lparr> vec_x = velx * 0.9, vec_y = vely * 0.9 \<rparr> \<rparr>)))"

text \<open>
  \<open>update\<close> above divides by \<open>fadeOutDur\<close>; the field's fade duration is the constant
  500, and the statements below take it positive.
\<close>

text \<open>\<^verbatim>\<open>explode()\<close> draws the angle first (\<open>r1\<close>), then the speed (\<open>r2\<close>).\<close>

definition explode :: "particle \<Rightarrow> real \<Rightarrow> real \<Rightarrow> particle" where
  "explode p r1 r2 =
     (let angle = r1 * pi * 2;
          speed = r2 * 5 + 2
      in p\<lparr> velocity := \<lparr> vec_x = cos angle * speed, vec_y = sin angle * speed \<rparr> \<rparr>)"

text \<open>
  A run of \<open>update\<close> calls on one particle, as the frame loop makes them: each call has
  its own pointer position and timestamp; the explosion flag, the explosion start and the
  two durations are those of the field.
\<close>

fun updates ::
  "particle \<Rightarrow> (real option \<times> real option \<times> real) list \<Rightarrow> bool \<Rightarrow> real \<Rightarrow> real \<Rightarrow> real \<Rightarrow> particle" where
  "updates p [] isExpl explosionStart explosionDur fadeOutDur = p"
| "updates p ((mouseX, mouseY, currentTime) # calls) isExpl explosionStart explosionDur fadeOutDur =
     updates (update p mouseX mouseY currentTime isExpl explosionStart explosionDur fadeOutDur)
       calls isExpl explosionStart explosionDur fadeOutDur"

subsection \<open>CreditLink\<close>

datatype error = TypeError

text \<open>
  The field state. \<open>timers\<close> is the host's list of pending \<^verbatim>\<open>setTimeout\<close> callbacks that
  this object scheduled: the delay and the URL the callback assigns to the location.
\<close>

record field =
  canvas_width :: nat
  canvas_height :: nat
  particles :: "particle list"
  isExploding :: bool
  explosionStartTime :: real
  redirectURL :: string
  explosionDuration :: real
  fadeOutDuration :: real
  creditText :: string
  mouse_x :: "real option"
  mouse_y :: "real option"
  timers :: "(real \<times> string) list"

text \<open>
  The constructor; \<open>cw\<close> and \<open>ch\<close> are the dimensions the canvas element has when it is
  looked up, and an empty \<open>url\<close> stands for a missing (falsy) argument.
\<close>

definition CreditLink :: "nat \<Rightarrow> nat \<Rightarrow> string \<Rightarrow> field" where
  "CreditLink cw ch url =
     \<lparr> canvas_width = cw, canvas_height = ch,
       particles = [],
       isExploding = False,
       explosionStartTime = 0,
       redirectURL = (if url = [] then ''https://jonaskjeldmand.vercel.app/'' else url),
       explosionDuration = 1500,
       fadeOutDuration = 500,
       creditText = ''Jonas Kjeldmand Jensen'',
       mouse_x = None, mouse_y = None,
       timers = [] \<rparr>"

definition resizeCanvas :: "field \<Rightarrow> nat \<Rightarrow> nat \<Rightarrow> field" where
  "resizeCanvas s innerWidth innerHeight =
     s\<lparr> canvas_width := innerWidth, canvas_height := innerHeight \<rparr>"

text \<open>
  The \<^verbatim>\<open>ImageData\<close> that \<^verbatim>\<open>getImageData\<close> returns: RGBA bytes, row by row. Reading the
  byte array out of range gives \<^verbatim>\<open>undefined\<close>, and \<^verbatim>\<open>undefined > 200\<close> is false.
\<close>

record imageData =
  img_width :: nat
  img_height :: nat
  img_data :: "8 word list"

definition lit :: "imageData \<Rightarrow> nat \<Rightarrow> nat \<Rightarrow> bool" where
  "lit d x y =
     (let i = (y * 4 * img_width d) + (x * 4) + 3
      in if i < length (img_data d) then img_data d ! i > 200 else False)"

text \<open>
  \<^verbatim>\<open>Math.max(1, Math.floor(3 * window.devicePixelRatio))\<close>. The floor turns the rounding
  of the product into a different stride (for the double just below \<open>2/3\<close> the product
  rounds to 2), so here the product is rounded as the machine does it: to the nearest
  double, 53 significant bits, ties to the even significand. \<open>round_double\<close> is that
  rounding for finite products in the normal range; a product in the subnormal range
  lies below 1, where the stride is 1 with or without rounding, and a product that
  overflows needs a pixel ratio beyond \<open>10 ^ 307\<close>.
\<close>

definition round_half_even :: "real \<Rightarrow> int" where
  "round_half_even q =
     (let n = \<lfloor>q\<rfloor>; r = q - of_int n
      in if r < 1 / 2 then n
         else if 1 / 2 < r then n + 1
         else if even n then n else n + 1)"

definition round_double :: "real \<Rightarrow> real" where
  "round_double x =
     (if x = 0 then 0
      else (let e = \<lfloor>log 2 \<bar>x\<bar>\<rfloor>;
                u = 2 powi (e - 52)
            in sgn x * of_int (round_half_even (\<bar>x\<bar> / u)) * u))"

definition step_of :: "real \<Rightarrow> nat" where
  "step_of devicePixelRatio = nat (max 1 \<lfloor>round_double (3 * devicePixelRatio)\<rfloor>)"

lemma step_of_pos: "0 < step_of dpr"
  by (simp add: step_of_def)

text \<open>
  The two nested loops of \<^verbatim>\<open>createParticles\<close>. \<open>ps\<close> is \<^verbatim>\<open>this.particles\<close>, emptied
  before the loops start, so the next particle is number \<open>length ps\<close> and its constructor
  draws the random values \<open>4 * length ps, \<dots>, 4 * length ps + 3\<close> of the stream.
\<close>

function scan_row ::
  "imageData \<Rightarrow> real \<Rightarrow> (nat \<Rightarrow> real) \<Rightarrow> nat \<Rightarrow> nat \<Rightarrow> particle list \<Rightarrow> particle list" where
  "scan_row d dpr rnd y x ps =
     (if x < img_width d then
        scan_row d dpr rnd y (x + step_of dpr)
          (if lit d x y
           then ps @ [Particle (real x) (real y)
                        (rnd (4 * length ps)) (rnd (4 * length ps + 1))
                        (rnd (4 * length ps + 2)) (rnd (4 * length ps + 3))]
           else ps)
      else ps)"
  by pat_completeness auto
termination
  by (relation "measure (\<lambda>(d, dpr, rnd, y, x, ps). img_width d - x)")
     (use step_of_pos in \<open>auto simp: diff_less_mono2\<close>)

function scan_rows ::
  "imageData \<Rightarrow> real \<Rightarrow> (nat \<Rightarrow> real) \<Rightarrow> nat \<Rightarrow> particle list \<Rightarrow> particle list" where
  "scan_rows d dpr rnd y ps =
     (if y < img_height d then
        scan_rows d dpr rnd (y + step_of dpr) (scan_row d dpr rnd y 0 ps)
      else ps)"
  by pat_completeness auto
termination
  by (relation "measure (\<lambda>(d, dpr, rnd, y, ps). img_height d - y)")
     (use step_of_pos in \<open>auto simp: diff_less_mono2\<close>)

text \<open>
  \<open>pixels\<close> is the content of the canvas after \<^verbatim>\<open>fillText\<close> drew the credit text at the
  bottom right, as \<^verbatim>\<open>getImageData(0, 0, canvas.width, canvas.height)\<close> reads it; the
  rasterisation itself is the browser's. Font, fill style and the final \<^verbatim>\<open>clearRect\<close>
  only touch the drawing surface. On a canvas of width or height 0 the browser's
  \<^verbatim>\<open>getImageData\<close> raises instead of returning an empty image; the particle list was
  emptied before, so the field is left in the state this model computes with zero rows.
\<close>

definition createParticles :: "field \<Rightarrow> real \<Rightarrow> 8 word list \<Rightarrow> (nat \<Rightarrow> real) \<Rightarrow> field" where
  "createParticles s devicePixelRatio pixels rnd =
     (let s1 = s\<lparr> particles := [] \<rparr>;
          d = \<lparr> img_width = canvas_width s1, img_height = canvas_height s1, img_data = pixels \<rparr>
      in s1\<lparr> particles := scan_rows d devicePixelRatio rnd 0 (particles s1) \<rparr>)"

definition handleResize ::
  "field \<Rightarrow> nat \<Rightarrow> nat \<Rightarrow> real \<Rightarrow> 8 word list \<Rightarrow> (nat \<Rightarrow> real) \<Rightarrow> field" where
  "handleResize s innerWidth innerHeight devicePixelRatio pixels rnd =
     createParticles (resizeCanvas s innerWidth innerHeight) devicePixelRatio pixels rnd"

text \<open>
  \<^verbatim>\<open>getTextBounds\<close>: \<open>textWidth\<close> is \<^verbatim>\<open>measureText(creditText).width\<close> under the
  context's current font.
\<close>

record textBounds =
  tb_x :: real
  tb_y :: real
  tb_width :: real
  tb_height :: real

definition getTextBounds :: "field \<Rightarrow> nat \<Rightarrow> real \<Rightarrow> textBounds" where
  "getTextBounds s innerWidth textWidth =
     (let fontSize = min (real innerWidth / 20) 28
      in \<lparr> tb_x = real (canvas_width s) - textWidth - 20,
           tb_y = real (canvas_height s) - 20,
           tb_width = textWidth,
           tb_height = fontSize * 1.2 \<rparr>)"

text \<open>\<^verbatim>\<open>particles.forEach(particle => particle.explode())\<close>: two draws per particle.\<close>

fun explode_all :: "particle list \<Rightarrow> (nat \<Rightarrow> real) \<Rightarrow> nat \<Rightarrow> particle list" where
  "explode_all [] rnd k = []"
| "explode_all (p # ps) rnd k = explode p (rnd k) (rnd (k + 1)) # explode_all ps rnd (k + 2)"

definition startExplosion :: "field \<Rightarrow> real \<Rightarrow> (nat \<Rightarrow> real) \<Rightarrow> field" where
  "startExplosion s now rnd =
     s\<lparr> isExploding := True,
        explosionStartTime := now,
        particles := explode_all (particles s) rnd 0,
        timers := timers s @ [(explosionDuration s, redirectURL s)] \<rparr>"

text \<open>
  The events and the canvas's bounding rectangle. A JavaScript division by a zero
  \<^verbatim>\<open>rect.width\<close> or \<^verbatim>\<open>rect.height\<close> gives an infinity or NaN, the click coordinate is then
  infinite or NaN, and the bounds test is false; HOL's \<open>x / 0 = 0\<close> would say otherwise, so
  the handlers test for it.
\<close>

record domRect =
  rect_left :: real
  rect_top :: real
  rect_width :: real
  rect_height :: real

record mouseEvent =
  clientX :: real
  clientY :: real

record touch =
  touch_clientX :: real
  touch_clientY :: real

record touchEvent =
  touches :: "touch list"

definition handleClick ::
  "field \<Rightarrow> mouseEvent \<Rightarrow> domRect \<Rightarrow> nat \<Rightarrow> real \<Rightarrow> real \<Rightarrow> (nat \<Rightarrow> real) \<Rightarrow> field" where
  "handleClick s event rect innerWidth textWidth now rnd =
     (let scaleX = real (canvas_width s) / rect_width rect;
          scaleY = real (canvas_height s) / rect_height rect;
          clickX = (clientX event - rect_left rect) * scaleX;
          clickY = (clientY event - rect_top rect) * scaleY;
          textBounds = getTextBounds s innerWidth textWidth
      in if rect_width rect \<noteq> 0 \<and> rect_height rect \<noteq> 0 \<and>
            clickX \<ge> tb_x textBounds \<and> clickX \<le> tb_x textBounds + tb_width textBounds \<and>
            clickY \<ge> tb_y textBounds - tb_height textBounds \<and> clickY \<le> tb_y textBounds
         then startExplosion s now rnd
         else s)"

text \<open>
  \<^verbatim>\<open>event.touches[0]\<close> is \<^verbatim>\<open>undefined\<close> on an empty list, and reading \<^verbatim>\<open>clientX\<close> of it
  throws a TypeError before anything else happens.
\<close>

definition handleTouch ::
  "field \<Rightarrow> touchEvent \<Rightarrow> domRect \<Rightarrow> nat \<Rightarrow> real \<Rightarrow> real \<Rightarrow> (nat \<Rightarrow> real) \<Rightarrow> error + field" where
  "handleTouch s event rect innerWidth textWidth now rnd =
     (case touches event of
        [] \<Rightarrow> Inl TypeError
      | t # _ \<Rightarrow>
          (let scaleX = real (canvas_width s) / rect_width rect;
               scaleY = real (canvas_height s) / rect_height rect;
               touchX = (touch_clientX t - rect_left rect) * scaleX;
               touchY = (touch_clientY t - rect_top rect) * scaleY;
               textBounds = getTextBounds s innerWidth textWidth
           in if rect_width rect \<noteq> 0 \<and> rect_height rect \<noteq> 0 \<and>
                 touchX \<ge> tb_x textBounds \<and> touchX \<le> tb_x textBounds + tb_width textBounds \<and>
                 touchY \<ge> tb_y textBounds - tb_height textBounds \<and> touchY \<le> tb_y textBounds
              then Inr (startExplosion s now rnd)
              else Inr s))"

text \<open>
  The far branch of \<open>update\<close> on its own: the spring force \<open>0.05 \<cdot> (base - position)\<close>
  added to the velocity, the position moved, the velocity damped by 0.9.
\<close>

definition spring_only :: "particle \<Rightarrow> particle" where
  "spring_only p =
     p\<lparr> p_x := p_x p + (vec_x (velocity p) + 0.05 * (baseX p - p_x p)),
        p_y := p_y p + (vec_y (velocity p) + 0.05 * (baseY p - p_y p)),
        velocity := \<lparr> vec_x = 0.9 * (vec_x (velocity p) + 0.05 * (baseX p - p_x p)),
                      vec_y = 0.9 * (vec_y (velocity p) + 0.05 * (baseY p - p_y p)) \<rparr> \<rparr>"

declare scan_row.simps [simp del]

declare scan_rows.simps [simp del]

subsection \<open>Vocabulary for the statements\<close>

text \<open>The position of a particle as a pair.\<close>

definition position :: "particle \<Rightarrow> real \<times> real" where
  "position p = (p_x p, p_y p)"

text \<open>
  The sampling as the specification words it, written without the code's index
  arithmetic. The raster is an RGBA image \<open>w\<close> pixels wide, stored row by row: the cell
  \<open>(x, y)\<close> is the four bytes red, green, blue, alpha that follow the \<open>y \<cdot> w + x\<close> cells
  before it. The sample points are the cells of the stride grid \<open>0, step, 2 step, \<dots>\<close>
  (below the width and the height), walked row by row, each row from left to right, at
  which the alpha byte exceeds 200.
\<close>

definition cell :: "8 word list \<Rightarrow> nat \<Rightarrow> nat \<Rightarrow> nat \<Rightarrow> 8 word list" where
  "cell pixels w x y = take 4 (drop (4 * (y * w + x)) pixels)"

definition alpha_exceeds_200 :: "8 word list \<Rightarrow> nat \<Rightarrow> nat \<Rightarrow> nat \<Rightarrow> bool" where
  "alpha_exceeds_200 pixels w x y =
     (case cell pixels w x y of [r, g, b, a] \<Rightarrow> 200 < unat a | _ \<Rightarrow> False)"

definition grid :: "nat \<Rightarrow> nat \<Rightarrow> nat list" where
  "grid n step = map (\<lambda>i. i * step) [0..<(n + step - 1) div step]"

definition sample_points :: "nat \<Rightarrow> nat \<Rightarrow> 8 word list \<Rightarrow> nat \<Rightarrow> (nat \<times> nat) list" where
  "sample_points w h pixels step =
     concat (map (\<lambda>y. map (\<lambda>x. (x, y)) (filter (\<lambda>x. alpha_exceeds_200 pixels w x y) (grid w step)))
               (grid h step))"

text \<open>
  The hit test of the two activation handlers as a predicate on the client coordinates:
  the point is scaled into canvas coordinates and compared with the text's bounding box.
\<close>

definition canvas_point :: "field \<Rightarrow> domRect \<Rightarrow> real \<Rightarrow> real \<Rightarrow> real \<times> real" where
  "canvas_point s rect cx cy =
     ((cx - rect_left rect) * (real (canvas_width s) / rect_width rect),
      (cy - rect_top rect) * (real (canvas_height s) / rect_height rect))"

definition in_box :: "textBounds \<Rightarrow> real \<times> real \<Rightarrow> bool" where
  "in_box b pt =
     (tb_x b \<le> fst pt \<and> fst pt \<le> tb_x b + tb_width b \<and>
      tb_y b - tb_height b \<le> snd pt \<and> snd pt \<le> tb_y b)"

definition hit :: "field \<Rightarrow> domRect \<Rightarrow> nat \<Rightarrow> real \<Rightarrow> real \<Rightarrow> real \<Rightarrow> bool" where
  "hit s rect innerWidth textWidth cx cy =
     (rect_width rect \<noteq> 0 \<and> rect_height rect \<noteq> 0 \<and>
      in_box (getTextBounds s innerWidth textWidth) (canvas_point s rect cx cy))"

subsection \<open>Concrete inputs\<close>

definition rnd_zero :: "nat \<Rightarrow> real" where
  "rnd_zero k = 0"

text \<open>
  A 1000 by 800 field in the middle of its explosion: one particle flying with velocity
  \<open>(0, 3)\<close>, the explosion started at time 0, one redirect timer pending.
\<close>

definition exploding_field :: field where
  "exploding_field =
     (CreditLink 1000 800 [])
       \<lparr> particles := [(Particle 900 770 0 0 0 0)\<lparr> velocity := \<lparr> vec_x = 0, vec_y = 3 \<rparr> \<rparr>],
         isExploding := True,
         explosionStartTime := 0,
         timers := [(1500, ''https://jonaskjeldmand.vercel.app/'')] \<rparr>"

definition full_rect :: domRect where
  "full_rect = \<lparr> rect_left = 0, rect_top = 0, rect_width = 1000, rect_height = 800 \<rparr>"

definition click_on_text :: mouseEvent where
  "click_on_text = \<lparr> clientX = 800, clientY = 775 \<rparr>"

definition click_off_text :: mouseEvent where
  "click_off_text = \<lparr> clientX = 50, clientY = 50 \<rparr>"

text \<open>
  A 3 by 3 raster of white pixels with these alpha bytes, row by row:
  255, 255, 200 / 255, 255, 255 / 201, 255, 0.
\<close>

definition test_pixels :: "8 word list" where
  "test_pixels =
     [255, 255, 255, 255,  255, 255, 255, 255,  255, 255, 255, 200,
      255, 255, 255, 255,  255, 255, 255, 255,  255, 255, 255, 255,
      255, 255, 255, 201,  255, 255, 255, 255,  255, 255, 255, 0]"

text \<open>
  A particle away from its rest position \<open>(30, 40)\<close>, at \<open>(40, 30)\<close>, moving with
  velocity \<open>(1, 2)\<close>.
\<close>

definition drifting_particle :: particle where
  "drifting_particle =
     (Particle 30 40 0 0 0 0)\<lparr> p_x := 40, p_y := 30, velocity := \<lparr> vec_x = 1, vec_y = 2 \<rparr> \<rparr>"

section \<open>Properties\<close>

subsection \<open>Particle.explode\<close>

lemma explode_speed:
  "sqrt ((cos a * s) * (cos a * s) + (sin a * s) * (sin a * s)) = \<bar>s\<bar>"
proof -
  have "(cos a * s) * (cos a * s) + (sin a * s) * (sin a * s)
          = (cos a * cos a + sin a * sin a) * (s * s)"
    by algebra
  also have "\<dots> = s * s"
    by (simp only: sin_cos_squared_add3 mult_1)
  finally show ?thesis
    by simp
qed

text \<open>
  C7. For random values \<open>r1\<close>, \<open>r2\<close> in \<open>[0,1)\<close>, \<open>explode\<close> only replaces the velocity;
  the new velocity has direction angle \<open>2\<pi>\<cdot>r1\<close> in \<open>[0,2\<pi>)\<close> and magnitude exactly
  \<open>5\<cdot>r2 + 2\<close>, which lies in \<open>[2,7)\<close>.
\<close>

theorem explode_velocity:
  assumes "0 \<le> r1" "r1 < 1" "0 \<le> r2" "r2 < 1"
  shows "explode p r1 r2 =
           p\<lparr> velocity := \<lparr> vec_x = cos (2 * pi * r1) * (5 * r2 + 2),
                             vec_y = sin (2 * pi * r1) * (5 * r2 + 2) \<rparr> \<rparr>
       \<and> sqrt (vec_x (velocity (explode p r1 r2)) * vec_x (velocity (explode p r1 r2))
             + vec_y (velocity (explode p r1 r2)) * vec_y (velocity (explode p r1 r2)))
           = 5 * r2 + 2
       \<and> 2 \<le> 5 * r2 + 2 \<and> 5 * r2 + 2 < 7
       \<and> 0 \<le> 2 * pi * r1 \<and> 2 * pi * r1 < 2 * pi"
proof -
  have eq: "explode p r1 r2 =
           p\<lparr> velocity := \<lparr> vec_x = cos (2 * pi * r1) * (5 * r2 + 2),
                             vec_y = sin (2 * pi * r1) * (5 * r2 + 2) \<rparr> \<rparr>"
    by (simp add: explode_def Let_def ac_simps)
  have "0 \<le> 5 * r2 + 2"
    using assms by simp
  then have mag: "sqrt (vec_x (velocity (explode p r1 r2)) * vec_x (velocity (explode p r1 r2))
             + vec_y (velocity (explode p r1 r2)) * vec_y (velocity (explode p r1 r2)))
           = 5 * r2 + 2"
    by (simp add: eq explode_speed)
  have "2 \<le> 5 * r2 + 2" "5 * r2 + 2 < 7" "0 \<le> 2 * pi * r1" "2 * pi * r1 < 2 * pi"
    using assms by simp_all
  with eq mag show ?thesis
    by blast
qed

theorem explode_velocity_witness:
  "explode (Particle 3 4 0 0 0 0) 0 0 = (Particle 3 4 0 0 0 0)\<lparr> velocity := \<lparr> vec_x = 2, vec_y = 0 \<rparr> \<rparr>
   \<and> sqrt (vec_x (velocity (explode (Particle 3 4 0 0 0 0) 0 0))
            * vec_x (velocity (explode (Particle 3 4 0 0 0 0) 0 0))
          + vec_y (velocity (explode (Particle 3 4 0 0 0 0) 0 0))
            * vec_y (velocity (explode (Particle 3 4 0 0 0 0) 0 0))) = 2"
  using explode_velocity [of 0 0 "Particle 3 4 0 0 0 0"] by simp

subsection \<open>Particle.update while exploding\<close>

lemma update_base:
  "baseX (update p mx my t e st du fd) = baseX p \<and> baseY (update p mx my t e st du fd) = baseY p"
  by (simp add: update_def Let_def)

lemma updates_base:
  "baseX (updates p calls e st du fd) = baseX p \<and> baseY (updates p calls e st du fd) = baseY p"
  by (induction p calls e st du fd rule: updates.induct) (simp_all add: update_base)

lemma updates_snoc:
  "updates p (calls @ [(mx, my, t)]) e st du fd = update (updates p calls e st du fd) mx my t e st du fd"
  by (induction p calls e st du fd rule: updates.induct) simp_all

lemma update_exploding_alpha:
  "alpha (update p mx my t True st du fd) =
     (if t - st > du - fd then 1 - (t - st - (du - fd)) / fd else alpha p)"
  by (simp add: update_def Let_def)

lemma update_idle_alpha: "alpha (update p mx my t False st du fd) = alpha p"
  by (simp add: update_def Let_def)

lemma explode_alpha: "alpha (explode p r1 r2) = alpha p"
  by (simp add: explode_def Let_def)

lemma updates_exploding_alpha:
  assumes "sorted (map (\<lambda>c. snd (snd c)) calls)" "calls \<noteq> []"
  shows "alpha (updates p calls True st du fd) =
           (if snd (snd (last calls)) - st > du - fd
            then 1 - (snd (snd (last calls)) - st - (du - fd)) / fd
            else alpha p)"
  using assms
proof (induction calls rule: rev_induct)
  case Nil
  then show ?case by simp
next
  case (snoc c cs)
  obtain mx my t where c: "c = (mx, my, t)"
    by (cases c) auto
  show ?case
  proof (cases "cs = []")
    case True
    then show ?thesis
      by (simp add: c update_exploding_alpha)
  next
    case False
    from snoc.prems have srt: "sorted (map (\<lambda>c. snd (snd c)) cs)" and le: "snd (snd (last cs)) \<le> t"
      using False by (auto simp: c sorted_append)
    from snoc.IH [OF srt False] le show ?thesis
      by (simp add: c updates_snoc update_exploding_alpha)
  qed
qed




lemma updates_alpha_step:
  assumes srt: "sorted (map (\<lambda>c. snd (snd c)) calls)"
    and a1: "alpha p = 1" and fd: "0 < fd" and k: "k < length calls"
  shows "baseX (updates p (take (Suc k) calls) True st du fd) = baseX p
       \<and> baseY (updates p (take (Suc k) calls) True st du fd) = baseY p
       \<and> alpha (updates p (take (Suc k) calls) True st du fd)
           \<le> alpha (updates p (take k calls) True st du fd)"
proof -
  obtain mx my t where c: "calls ! k = (mx, my, t)"
    by (cases "calls ! k") auto
  let ?q = "updates p (take k calls) True st du fd"
  have step: "updates p (take (Suc k) calls) True st du fd = update ?q mx my t True st du fd"
    using k by (simp add: take_Suc_conv_app_nth c updates_snoc)
  have "alpha (update ?q mx my t True st du fd) \<le> alpha ?q"
  proof (cases "t - st > du - fd")
    case False
    then show ?thesis
      by (simp add: update_exploding_alpha)
  next
    case True
    have new: "alpha (update ?q mx my t True st du fd) = 1 - (t - st - (du - fd)) / fd"
      using True by (simp add: update_exploding_alpha)
    show ?thesis
    proof (cases k)
      case 0
      then have "alpha ?q = 1"
        by (simp add: a1)
      moreover have "0 \<le> (t - st - (du - fd)) / fd"
        using True fd by simp
      ultimately show ?thesis
        by (simp add: new)
    next
      case (Suc j)
      have ne: "take k calls \<noteq> []"
        using k Suc by auto
      have srt': "sorted (map (\<lambda>c. snd (snd c)) (take k calls))"
        using srt by (simp add: take_map [symmetric] sorted_wrt_take)
      have "last (take k calls) = calls ! j"
        using k Suc by (simp add: take_Suc_conv_app_nth)
      moreover have "snd (snd (calls ! j)) \<le> snd (snd (calls ! k))"
        using sorted_nth_mono [OF srt, of j k] k Suc by simp
      ultimately have le: "snd (snd (last (take k calls))) \<le> t"
        by (simp add: c)
      have old: "alpha ?q =
           (if snd (snd (last (take k calls))) - st > du - fd
            then 1 - (snd (snd (last (take k calls))) - st - (du - fd)) / fd
            else 1)"
        using updates_exploding_alpha [OF srt' ne, of p st du fd] by (simp add: a1)
      show ?thesis
      proof (cases "snd (snd (last (take k calls))) - st > du - fd")
        case False
        moreover have "0 \<le> (t - st - (du - fd)) / fd"
          using True fd by simp
        ultimately show ?thesis
          by (simp add: new old)
      next
        case T2: True
        have "(snd (snd (last (take k calls))) - st - (du - fd)) / fd \<le> (t - st - (du - fd)) / fd"
          using le fd by (simp add: divide_right_mono)
        then show ?thesis
          using T2 by (simp add: new old)
      qed
    qed
  qed
  then show ?thesis
    by (simp add: step updates_base update_base)
qed

text \<open>
  C4, as stated, fails for alpha. A particle whose alpha has already faded to \<open>1/5\<close>
  (update at time 1400 of an explosion started at 0) and whose explosion is started
  again at 1400, which a second click on the text does: the call at 1410 leaves alpha
  at \<open>1/5\<close>, and the call at 2401 raises it to \<open>499/500\<close>.
\<close>

theorem exploding_updates_monotone_counterexample:
  "alpha (update (Particle 900 770 0 0 0 0) None None 1400 True 0 1500 500) = 1 / 5
   \<and> (1410::real) \<le> 2401
   \<and> alpha (updates (update (Particle 900 770 0 0 0 0) None None 1400 True 0 1500 500)
        [(None, None, 1410)] True 1400 1500 500) = 1 / 5
   \<and> alpha (updates (update (Particle 900 770 0 0 0 0) None None 1400 True 0 1500 500)
        [(None, None, 1410), (None, None, 2401)] True 1400 1500 500) = 499 / 500"
  by (simp add: update_exploding_alpha Particle_def)

text \<open>
  C4, amended. No update call, whatever its arguments, changes \<open>baseX\<close> or \<open>baseY\<close>, so
  no run of calls does. Along a run of exploding updates that share one explosion start,
  with non-decreasing timestamps and a positive fade duration, on a particle whose alpha
  is 1 when the run begins, no call raises alpha: the alpha after call \<open>k + 1\<close> is at most
  the alpha after call \<open>k\<close>.
\<close>

theorem exploding_updates_monotone:
  "baseX (update q mx my t e st' du' fd') = baseX q
   \<and> baseY (update q mx my t e st' du' fd') = baseY q
   \<and> baseX (updates q calls' e st' du' fd') = baseX q
   \<and> baseY (updates q calls' e st' du' fd') = baseY q
   \<and> (sorted (map (\<lambda>c. snd (snd c)) calls) \<and> alpha p = 1 \<and> 0 < fd \<and> k < length calls \<longrightarrow>
        alpha (updates p (take (Suc k) calls) True st du fd)
          \<le> alpha (updates p (take k calls) True st du fd))"
  using updates_alpha_step [of calls p fd k st du]
  by (simp add: update_base updates_base)

theorem exploding_updates_monotone_witness:
  "sorted (map (\<lambda>c. snd (snd c)) [(None :: real option, None :: real option, 900 :: real), (None, None, 1200), (None, None, 1500)])
   \<and> alpha (Particle 10 20 0 0 0 0) = 1 \<and> (0::real) < 500
   \<and> (2::nat) < length [(None :: real option, None :: real option, 900 :: real), (None, None, 1200), (None, None, 1500)]
   \<and> baseX (updates (Particle 10 20 0 0 0 0) [(None :: real option, None :: real option, 900 :: real), (None, None, 1200), (None, None, 1500)]
        True 0 1500 500) = baseX (Particle 10 20 0 0 0 0)
   \<and> alpha (updates (Particle 10 20 0 0 0 0)
        (take (Suc 2) [(None :: real option, None :: real option, 900 :: real), (None, None, 1200), (None, None, 1500)]) True 0 1500 500)
       \<le> alpha (updates (Particle 10 20 0 0 0 0)
            (take 2 [(None :: real option, None :: real option, 900 :: real), (None, None, 1200), (None, None, 1500)]) True 0 1500 500)
   \<and> alpha (updates (Particle 10 20 0 0 0 0) [(None :: real option, None :: real option, 900 :: real), (None, None, 1200)] True 0 1500 500)
       = 3 / 5
   \<and> alpha (updates (Particle 10 20 0 0 0 0) [(None :: real option, None :: real option, 900 :: real), (None, None, 1200), (None, None, 1500)]
        True 0 1500 500) = 0"
proof -
  let ?p = "Particle 10 20 0 0 0 0"
  let ?calls = "[(None, None, 900::real), (None, None, 1200), (None, None, 1500)]
                  :: (real option \<times> real option \<times> real) list"
  have srt: "sorted (map (\<lambda>c. snd (snd c)) ?calls)"
    by simp
  have a: "alpha ?p = 1"
    by (simp add: Particle_def)
  have fd: "(0::real) < 500"
    by simp
  have k: "(2::nat) < length ?calls"
    by simp
  note inst = exploding_updates_monotone [of ?p None None 0 True 0 1500 500 ?calls ?calls ?p 500 2 0 1500]
  from inst have base: "baseX (updates ?p ?calls True 0 1500 500) = baseX ?p"
    by blast
  from inst srt a fd k have mono: "alpha (updates ?p (take (Suc 2) ?calls) True 0 1500 500)
       \<le> alpha (updates ?p (take 2 ?calls) True 0 1500 500)"
    by blast
  have v2: "alpha (updates ?p [(None, None, 900), (None, None, 1200)] True 0 1500 500) = 3 / 5"
    by (simp add: update_exploding_alpha Particle_def)
  have v3: "alpha (updates ?p ?calls True 0 1500 500) = 0"
    by (simp add: update_exploding_alpha Particle_def)
  from srt a fd k base mono v2 v3 show ?thesis
    by blast
qed

subsection \<open>Particle.update near the pointer\<close>

lemma sqrt_sum_squares_factor:
  assumes "x \<noteq> 0"
  shows "sqrt (x * x + y * y) = \<bar>x\<bar> * sqrt (1 + (y / x)\<^sup>2)"
proof -
  have "x * x + y * y = x\<^sup>2 * (1 + (y / x)\<^sup>2)"
    using assms by (simp add: power2_eq_square field_simps)
  then show ?thesis
    by (simp add: real_sqrt_mult)
qed

lemma cos_atan2:
  assumes "x \<noteq> 0 \<or> y \<noteq> 0"
  shows "cos (atan2 y x) = x / sqrt (x * x + y * y)"
proof (cases "x = 0")
  case True
  with assms show ?thesis
    by (simp add: atan2_def)
next
  case False
  have pos: "0 < sqrt (1 + (y / x)\<^sup>2)"
    by (simp add: add_pos_nonneg)
  show ?thesis
  proof (cases "0 < x")
    case True
    then show ?thesis
      using pos by (simp add: atan2_def cos_arctan sqrt_sum_squares_factor [OF False])
  next
    case F2: False
    with False have neg: "x < 0" by simp
    then show ?thesis
      using pos by (simp add: atan2_def cos_arctan sqrt_sum_squares_factor [OF False])
  qed
qed

lemma sin_atan2:
  assumes "x \<noteq> 0 \<or> y \<noteq> 0"
  shows "sin (atan2 y x) = y / sqrt (x * x + y * y)"
proof (cases "x = 0")
  case True
  with assms show ?thesis
    by (simp add: atan2_def real_sqrt_mult_self)
next
  case False
  have pos: "0 < sqrt (1 + (y / x)\<^sup>2)"
    by (simp add: add_pos_nonneg)
  show ?thesis
  proof (cases "0 < x")
    case True
    then show ?thesis
      using pos by (simp add: atan2_def sin_arctan sqrt_sum_squares_factor [OF False])
  next
    case F2: False
    with False have neg: "x < 0" by simp
    then show ?thesis
      using pos by (simp add: atan2_def sin_arctan sqrt_sum_squares_factor [OF False])
  qed
qed


lemma sqrt_25: "sqrt 25 = 5"
  by (rule real_sqrt_unique) simp_all

lemma sqrt_2500: "sqrt 2500 = 50"
  by (rule real_sqrt_unique) simp_all

lemma unit_vector:
  fixes a b d :: real
  assumes "d * d = a * a + b * b" "0 < d"
  shows "(a / d)\<^sup>2 + (b / d)\<^sup>2 = 1"
proof -
  have "(a / d)\<^sup>2 + (b / d)\<^sup>2 = (a * a + b * b) / (d * d)"
    by (simp add: power2_eq_square add_divide_distrib)
  also have "\<dots> = (d * d) / (d * d)"
    by (simp only: assms(1))
  also have "\<dots> = 1"
    using assms(2) by simp
  finally show ?thesis .
qed

text \<open>
  C5. A particle with zero noise amplitude and the pointer at distance \<open>d\<close>,
  \<open>0 < d < 35\<close>: one idle update adds \<open>((35 - d) / 35) \<cdot> 0.1 \<cdot> u\<close> to the velocity, where
  \<open>u = (pointer - particle) / d\<close> is the unit vector from the particle toward the pointer.
  The position then moves by the new velocity, and the velocity is damped by 0.9.
\<close>

theorem near_force_toward_pointer:
  assumes nx: "vec_x (noise p) = 0" and ny: "vec_y (noise p) = 0"
    and d: "d = sqrt ((mx - p_x p) * (mx - p_x p) + (my - p_y p) * (my - p_y p))"
    and d0: "0 < d" and d35: "d < 35"
  shows "update p (Some mx) (Some my) t False st du fd =
           p\<lparr> p_x := p_x p + (vec_x (velocity p) + (35 - d) / 35 * 0.1 * ((mx - p_x p) / d)),
              p_y := p_y p + (vec_y (velocity p) + (35 - d) / 35 * 0.1 * ((my - p_y p) / d)),
              velocity :=
                \<lparr> vec_x = (vec_x (velocity p) + (35 - d) / 35 * 0.1 * ((mx - p_x p) / d)) * 0.9,
                  vec_y = (vec_y (velocity p) + (35 - d) / 35 * 0.1 * ((my - p_y p) / d)) * 0.9 \<rparr> \<rparr>
       \<and> ((mx - p_x p) / d)\<^sup>2 + ((my - p_y p) / d)\<^sup>2 = 1
       \<and> 0 < (35 - d) / 35 * (0.1::real)"
proof -
  let ?dx = "mx - p_x p" and ?dy = "my - p_y p"
  have nz: "?dx \<noteq> 0 \<or> ?dy \<noteq> 0"
    using d d0 by auto
  have c: "cos (atan2 ?dy ?dx) = ?dx / d" and s: "sin (atan2 ?dy ?dx) = ?dy / d"
    using cos_atan2 [OF nz] sin_atan2 [OF nz] d by simp_all
  have upd: "update p (Some mx) (Some my) t False st du fd =
           p\<lparr> p_x := p_x p + (vec_x (velocity p) + (35 - d) / 35 * 0.1 * (?dx / d)),
              p_y := p_y p + (vec_y (velocity p) + (35 - d) / 35 * 0.1 * (?dy / d)),
              velocity :=
                \<lparr> vec_x = (vec_x (velocity p) + (35 - d) / 35 * 0.1 * (?dx / d)) * 0.9,
                  vec_y = (vec_y (velocity p) + (35 - d) / 35 * 0.1 * (?dy / d)) * 0.9 \<rparr> \<rparr>"
    using d35 by (simp add: update_def Let_def to_number_def d [symmetric] c s nx ny)
  have "0 \<le> ?dx * ?dx + ?dy * ?dy"
    by simp
  then have "d * d = ?dx * ?dx + ?dy * ?dy"
    unfolding d by simp
  then have unit: "(?dx / d)\<^sup>2 + (?dy / d)\<^sup>2 = 1"
    using d0 by (rule unit_vector)
  have "0 < (35 - d) / 35 * (0.1::real)"
    using d35 by simp
  with upd unit show ?thesis
    by blast
qed



theorem near_force_toward_pointer_witness:
  "vec_x (noise (Particle 0 0 0 (1/2) (1/2) 0)) = 0 \<and> vec_y (noise (Particle 0 0 0 (1/2) (1/2) 0)) = 0
   \<and> (5::real) = sqrt ((3 - p_x (Particle 0 0 0 (1/2) (1/2) 0)) * (3 - p_x (Particle 0 0 0 (1/2) (1/2) 0))
                 + (4 - p_y (Particle 0 0 0 (1/2) (1/2) 0)) * (4 - p_y (Particle 0 0 0 (1/2) (1/2) 0)))
   \<and> velocity (update (Particle 0 0 0 (1/2) (1/2) 0) (Some 3) (Some 4) 0 False 0 1500 500)
       = \<lparr> vec_x = 81 / 1750, vec_y = 54 / 875 \<rparr>"
proof -
  let ?p = "Particle 0 0 0 (1/2) (1/2) 0"
  have nx: "vec_x (noise ?p) = 0" and ny: "vec_y (noise ?p) = 0"
    by (simp_all add: Particle_def)
  have d: "(5::real) = sqrt ((3 - p_x ?p) * (3 - p_x ?p) + (4 - p_y ?p) * (4 - p_y ?p))"
    by (simp add: Particle_def sqrt_25)
  have "update ?p (Some 3) (Some 4) 0 False 0 1500 500 =
           ?p\<lparr> p_x := p_x ?p + (vec_x (velocity ?p) + (35 - 5) / 35 * 0.1 * ((3 - p_x ?p) / 5)),
              p_y := p_y ?p + (vec_y (velocity ?p) + (35 - 5) / 35 * 0.1 * ((4 - p_y ?p) / 5)),
              velocity :=
                \<lparr> vec_x = (vec_x (velocity ?p) + (35 - 5) / 35 * 0.1 * ((3 - p_x ?p) / 5)) * 0.9,
                  vec_y = (vec_y (velocity ?p) + (35 - 5) / 35 * 0.1 * ((4 - p_y ?p) / 5)) * 0.9 \<rparr> \<rparr>"
    using near_force_toward_pointer [OF nx ny d, of 0 0 1500 500] by simp
  then have "velocity (update ?p (Some 3) (Some 4) 0 False 0 1500 500)
       = \<lparr> vec_x = 81 / 1750, vec_y = 54 / 875 \<rparr>"
    by (simp add: Particle_def)
  with nx ny d show ?thesis
    by blast
qed

subsection \<open>Particle.update with no pointer\<close>

text \<open>
  C6, as stated, fails: the absent pointer is \<^verbatim>\<open>null\<close>, which the subtraction coerces to
  0, so a particle closer than 35 to the canvas origin takes the near branch. A particle
  at the origin gains the velocity \<open>(0.09, 0)\<close> where the spring alone gives \<open>(0, 0)\<close>.
\<close>

theorem absent_pointer_counterexample:
  "velocity (update (Particle 0 0 0 (1/2) (1/2) 0) None None 0 False 0 1500 500)
     = \<lparr> vec_x = 9 / 100, vec_y = 0 \<rparr>
   \<and> velocity (spring_only (Particle 0 0 0 (1/2) (1/2) 0)) = \<lparr> vec_x = 0, vec_y = 0 \<rparr>
   \<and> update (Particle 0 0 0 (1/2) (1/2) 0) None None 0 False 0 1500 500
       \<noteq> spring_only (Particle 0 0 0 (1/2) (1/2) 0)"
proof -
  have v: "velocity (update (Particle 0 0 0 (1/2) (1/2) 0) None None 0 False 0 1500 500)
     = \<lparr> vec_x = 9 / 100, vec_y = 0 \<rparr>"
    by (simp add: update_def Let_def to_number_def Particle_def atan2_def)
  have w: "velocity (spring_only (Particle 0 0 0 (1/2) (1/2) 0)) = \<lparr> vec_x = 0, vec_y = 0 \<rparr>"
    by (simp add: spring_only_def Particle_def)
  from v w have "update (Particle 0 0 0 (1/2) (1/2) 0) None None 0 False 0 1500 500
       \<noteq> spring_only (Particle 0 0 0 (1/2) (1/2) 0)"
    by auto
  with v w show ?thesis
    by blast
qed

text \<open>
  C6, amended. For every particle, an update with the pointer absent is an update with
  the pointer at the canvas origin; a particle at distance at least 35 from the origin
  therefore receives only the spring force \<open>0.05 \<cdot> (base - position)\<close> and the damping
  0.9.
\<close>

theorem absent_pointer_is_origin:
  "update p None None t False st du fd = update p (Some 0) (Some 0) t False st du fd
   \<and> (35 \<le> sqrt (p_x p * p_x p + p_y p * p_y p) \<longrightarrow>
        update p None None t False st du fd = spring_only p)"
  by (simp add: update_def Let_def to_number_def spring_only_def)

theorem absent_pointer_is_origin_witness:
  "(35::real) \<le> sqrt (p_x drifting_particle * p_x drifting_particle
                     + p_y drifting_particle * p_y drifting_particle)
   \<and> update drifting_particle None None 0 False 0 1500 500
       = update drifting_particle (Some 0) (Some 0) 0 False 0 1500 500
   \<and> update drifting_particle None None 0 False 0 1500 500
       = drifting_particle\<lparr> p_x := 81 / 2, p_y := 65 / 2,
           velocity := \<lparr> vec_x = 9 / 20, vec_y = 9 / 4 \<rparr> \<rparr>"
proof -
  have far: "(35::real) \<le> sqrt (p_x drifting_particle * p_x drifting_particle
                     + p_y drifting_particle * p_y drifting_particle)"
    by (simp add: drifting_particle_def Particle_def sqrt_2500)
  note inst = absent_pointer_is_origin [of drifting_particle 0 0 1500 500]
  from inst have same: "update drifting_particle None None 0 False 0 1500 500
       = update drifting_particle (Some 0) (Some 0) 0 False 0 1500 500"
    by (rule conjunct1)
  from inst have "35 \<le> sqrt (p_x drifting_particle * p_x drifting_particle
                     + p_y drifting_particle * p_y drifting_particle) \<longrightarrow>
        update drifting_particle None None 0 False 0 1500 500 = spring_only drifting_particle"
    by (rule conjunct2)
  from this far have "update drifting_particle None None 0 False 0 1500 500
       = spring_only drifting_particle"
    by (rule mp)
  then have spring: "update drifting_particle None None 0 False 0 1500 500
       = drifting_particle\<lparr> p_x := 81 / 2, p_y := 65 / 2,
           velocity := \<lparr> vec_x = 9 / 20, vec_y = 9 / 4 \<rparr> \<rparr>"
    by (simp add: spring_only_def drifting_particle_def Particle_def)
  show ?thesis
    by (rule conjI [OF far conjI [OF same spring]])
qed

subsection \<open>Activation: click and touch\<close>

lemma handleClick_hit:
  "handleClick s ev rect iw tw now rnd =
     (if hit s rect iw tw (clientX ev) (clientY ev) then startExplosion s now rnd else s)"
  by (simp add: handleClick_def hit_def in_box_def canvas_point_def Let_def)

lemma handleTouch_hit:
  "touches ev = t # ts \<Longrightarrow>
   handleTouch s ev rect iw tw now rnd =
     Inr (if hit s rect iw tw (touch_clientX t) (touch_clientY t) then startExplosion s now rnd else s)"
  by (simp add: handleTouch_def hit_def in_box_def canvas_point_def Let_def)

text \<open>
  C1, as stated, fails: neither handler nor \<open>startExplosion\<close> reads \<open>isExploding\<close>. A
  click on the text of a field that is already exploding moves the explosion start from
  0 to 700, replaces the particle's velocity \<open>(0, 3)\<close> by \<open>(2, 0)\<close> and schedules a second
  redirect timer.
\<close>

theorem activation_while_exploding_counterexample:
  "isExploding exploding_field
   \<and> explosionStartTime exploding_field = 0
   \<and> explosionStartTime (handleClick exploding_field click_on_text full_rect 1000 200 700 rnd_zero) = 700
   \<and> map velocity (particles exploding_field) = [\<lparr> vec_x = 0, vec_y = 3 \<rparr>]
   \<and> map velocity (particles (handleClick exploding_field click_on_text full_rect 1000 200 700 rnd_zero))
       = [\<lparr> vec_x = 2, vec_y = 0 \<rparr>]
   \<and> length (timers exploding_field) = 1
   \<and> length (timers (handleClick exploding_field click_on_text full_rect 1000 200 700 rnd_zero)) = 2"
  by (simp add: handleClick_def getTextBounds_def startExplosion_def exploding_field_def
      CreditLink_def click_on_text_def full_rect_def rnd_zero_def explode_def Let_def Particle_def)

text \<open>
  C1, amended. On a field that is already exploding, an activation (a click, or a touch
  with a non-empty touch list) outside the text's bounding box is a no-op; an activation
  inside the box leaves \<open>isExploding\<close> true, sets \<open>explosionStartTime\<close> to the current
  time, gives every particle a fresh random velocity and schedules one more redirect
  timer.
\<close>

theorem activation_while_exploding:
  assumes "isExploding s"
  shows "handleClick s ev rect iw tw now rnd =
           (if hit s rect iw tw (clientX ev) (clientY ev)
            then s\<lparr> explosionStartTime := now,
                    particles := explode_all (particles s) rnd 0,
                    timers := timers s @ [(explosionDuration s, redirectURL s)] \<rparr>
            else s)
       \<and> handleTouch s \<lparr> touches = t # ts \<rparr> rect iw tw now rnd =
           Inr (if hit s rect iw tw (touch_clientX t) (touch_clientY t)
                then s\<lparr> explosionStartTime := now,
                        particles := explode_all (particles s) rnd 0,
                        timers := timers s @ [(explosionDuration s, redirectURL s)] \<rparr>
                else s)
       \<and> isExploding (handleClick s ev rect iw tw now rnd)"
  using assms by (simp add: handleClick_hit handleTouch_hit startExplosion_def)

theorem activation_while_exploding_witness:
  "isExploding exploding_field
   \<and> hit exploding_field full_rect 1000 200 (clientX click_on_text) (clientY click_on_text)
   \<and> \<not> hit exploding_field full_rect 1000 200 (clientX click_off_text) (clientY click_off_text)
   \<and> handleClick exploding_field click_off_text full_rect 1000 200 700 rnd_zero = exploding_field
   \<and> handleClick exploding_field click_on_text full_rect 1000 200 700 rnd_zero =
       exploding_field\<lparr> explosionStartTime := 700,
         particles := explode_all (particles exploding_field) rnd_zero 0,
         timers := timers exploding_field
                     @ [(explosionDuration exploding_field, redirectURL exploding_field)] \<rparr>"
proof -
  have e: "isExploding exploding_field"
    by (simp add: exploding_field_def)
  have h1: "hit exploding_field full_rect 1000 200 (clientX click_on_text) (clientY click_on_text)"
    by (simp add: hit_def in_box_def canvas_point_def getTextBounds_def exploding_field_def
        CreditLink_def full_rect_def click_on_text_def)
  have h2: "\<not> hit exploding_field full_rect 1000 200 (clientX click_off_text) (clientY click_off_text)"
    by (simp add: hit_def in_box_def canvas_point_def getTextBounds_def exploding_field_def
        CreditLink_def full_rect_def click_off_text_def)
  from activation_while_exploding [OF e, of click_off_text full_rect 1000 200 700 rnd_zero] h2
  have off: "handleClick exploding_field click_off_text full_rect 1000 200 700 rnd_zero = exploding_field"
    by simp
  from activation_while_exploding [OF e, of click_on_text full_rect 1000 200 700 rnd_zero] h1
  have on: "handleClick exploding_field click_on_text full_rect 1000 200 700 rnd_zero =
       exploding_field\<lparr> explosionStartTime := 700,
         particles := explode_all (particles exploding_field) rnd_zero 0,
         timers := timers exploding_field
                     @ [(explosionDuration exploding_field, redirectURL exploding_field)] \<rparr>"
    by simp
  from e h1 h2 off on show ?thesis
    by blast
qed

text \<open>
  C10. A touch event with an empty touch list: reading \<^verbatim>\<open>touches[0].clientX\<close> throws, so
  the handler ends with a TypeError before the bounds test, and no explosion is started.
\<close>

theorem empty_touch_list_throws:
  assumes "touches ev = []"
  shows "handleTouch s ev rect iw tw now rnd = Inl TypeError"
  using assms by (simp add: handleTouch_def)

theorem empty_touch_list_throws_witness:
  "touches \<lparr> touches = [] \<rparr> = []
   \<and> handleTouch (CreditLink 1000 800 []) \<lparr> touches = [] \<rparr> full_rect 1000 200 700 rnd_zero = Inl TypeError"
  using empty_touch_list_throws [of "\<lparr> touches = [] \<rparr>" "CreditLink 1000 800 []" full_rect 1000 200 700 rnd_zero]
  by simp



subsection \<open>Resize\<close>

lemma scan_row_fresh:
  "list_all (\<lambda>p. alpha p = 1 \<and> velocity p = \<lparr> vec_x = 0, vec_y = 0 \<rparr>) ps \<Longrightarrow>
   list_all (\<lambda>p. alpha p = 1 \<and> velocity p = \<lparr> vec_x = 0, vec_y = 0 \<rparr>) (scan_row d dpr rnd y x ps)"
proof (induction d dpr rnd y x ps rule: scan_row.induct)
  case (1 d dpr rnd y x ps)
  show ?case
  proof (cases "x < img_width d")
    case True
    then show ?thesis
      using "1.IH" "1.prems" by (subst scan_row.simps) (simp add: Particle_def)
  next
    case False
    then show ?thesis
      using "1.prems" by (subst scan_row.simps) simp
  qed
qed

lemma scan_rows_fresh:
  "list_all (\<lambda>p. alpha p = 1 \<and> velocity p = \<lparr> vec_x = 0, vec_y = 0 \<rparr>) ps \<Longrightarrow>
   list_all (\<lambda>p. alpha p = 1 \<and> velocity p = \<lparr> vec_x = 0, vec_y = 0 \<rparr>) (scan_rows d dpr rnd y ps)"
proof (induction d dpr rnd y ps rule: scan_rows.induct)
  case (1 d dpr rnd y ps)
  show ?case
  proof (cases "y < img_height d")
    case True
    then show ?thesis
      using "1.IH" "1.prems" by (subst scan_rows.simps) (simp add: scan_row_fresh)
  next
    case False
    then show ?thesis
      using "1.prems" by (subst scan_rows.simps) simp
  qed
qed

text \<open>
  C2, as stated, fails: \<open>handleResize\<close> and \<open>createParticles\<close> never assign \<open>isExploding\<close>,
  so an exploding field is still exploding after a resize.
\<close>

theorem resize_keeps_exploding_counterexample:
  "isExploding exploding_field \<and> isExploding (handleResize exploding_field 1200 900 1 [] rnd_zero)"
  by (simp add: handleResize_def createParticles_def resizeCanvas_def exploding_field_def Let_def)

text \<open>
  C2, amended. A resize sets the canvas to the new viewport, discards the particle
  collection and rebuilds it from a fresh sample, every new particle with alpha 1 and
  zero velocity; \<open>isExploding\<close>, \<open>explosionStartTime\<close> and the pending timers are left as
  they were.
\<close>

theorem resize_rebuilds_particles:
  "handleResize s iw ih dpr pixels rnd =
     s\<lparr> canvas_width := iw, canvas_height := ih,
        particles := scan_rows \<lparr> img_width = iw, img_height = ih, img_data = pixels \<rparr> dpr rnd 0 [] \<rparr>
   \<and> list_all (\<lambda>p. alpha p = 1 \<and> velocity p = \<lparr> vec_x = 0, vec_y = 0 \<rparr>)
       (particles (handleResize s iw ih dpr pixels rnd))
   \<and> isExploding (handleResize s iw ih dpr pixels rnd) = isExploding s
   \<and> explosionStartTime (handleResize s iw ih dpr pixels rnd) = explosionStartTime s
   \<and> timers (handleResize s iw ih dpr pixels rnd) = timers s"
  by (simp add: handleResize_def createParticles_def resizeCanvas_def Let_def scan_rows_fresh)

subsection \<open>Sampling\<close>

lemma below_iff_index:
  fixes i n step :: nat
  assumes "0 < step"
  shows "(i * step < n) = (i < (n + step - 1) div step)"
proof -
  have "(i < (n + step - 1) div step) = (Suc i \<le> (n + step - 1) div step)"
    by auto
  also have "\<dots> = (Suc i * step \<le> n + step - 1)"
    using assms by (simp add: less_eq_div_iff_mult_less_eq)
  also have "\<dots> = (i * step < n)"
    using assms by auto
  finally show ?thesis
    by simp
qed

lemma scan_row_positions:
  assumes "i \<le> (img_width d + step_of dpr - 1) div step_of dpr"
  shows "map position (scan_row d dpr rnd y (i * step_of dpr) ps) =
           map position ps @
           map (\<lambda>x. (real x, real y))
             (filter (\<lambda>x. lit d x y)
                (map (\<lambda>j. j * step_of dpr) [i..<(img_width d + step_of dpr - 1) div step_of dpr]))"
  using assms
proof (induction "(img_width d + step_of dpr - 1) div step_of dpr - i" arbitrary: i ps)
  case 0
  then have "i = (img_width d + step_of dpr - 1) div step_of dpr"
    by simp
  then have "\<not> i * step_of dpr < img_width d"
    using below_iff_index [OF step_of_pos, of i dpr "img_width d"] by simp
  then show ?case
    using 0 by (subst scan_row.simps) simp
next
  case (Suc m)
  then have lt: "i < (img_width d + step_of dpr - 1) div step_of dpr"
    by simp
  then have below: "i * step_of dpr < img_width d"
    using below_iff_index [OF step_of_pos, of i dpr "img_width d"] by simp
  have m: "m = (img_width d + step_of dpr - 1) div step_of dpr - Suc i"
    using Suc.hyps(2) by simp
  have le: "Suc i \<le> (img_width d + step_of dpr - 1) div step_of dpr"
    using lt by simp
  have next_x: "i * step_of dpr + step_of dpr = Suc i * step_of dpr"
    by simp
  show ?case
    using below lt
    by (subst scan_row.simps)
       (simp only: next_x Suc.hyps(1) [OF m le] if_True,
        simp add: upt_conv_Cons position_def Particle_def)
qed

lemma scan_rows_positions:
  assumes "i \<le> (img_height d + step_of dpr - 1) div step_of dpr"
  shows "map position (scan_rows d dpr rnd (i * step_of dpr) ps) =
           map position ps @
           concat (map (\<lambda>y. map (\<lambda>x. (real x, real y))
                         (filter (\<lambda>x. lit d x y) (grid (img_width d) (step_of dpr))))
              (map (\<lambda>j. j * step_of dpr) [i..<(img_height d + step_of dpr - 1) div step_of dpr]))"
  using assms
proof (induction "(img_height d + step_of dpr - 1) div step_of dpr - i" arbitrary: i ps)
  case 0
  then have "i = (img_height d + step_of dpr - 1) div step_of dpr"
    by simp
  then have "\<not> i * step_of dpr < img_height d"
    using below_iff_index [OF step_of_pos, of i dpr "img_height d"] by simp
  then show ?case
    using 0 by (subst scan_rows.simps) simp
next
  case (Suc m)
  then have lt: "i < (img_height d + step_of dpr - 1) div step_of dpr"
    by simp
  then have below: "i * step_of dpr < img_height d"
    using below_iff_index [OF step_of_pos, of i dpr "img_height d"] by simp
  have m: "m = (img_height d + step_of dpr - 1) div step_of dpr - Suc i"
    using Suc.hyps(2) by simp
  have le: "Suc i \<le> (img_height d + step_of dpr - 1) div step_of dpr"
    using lt by simp
  have next_y: "i * step_of dpr + step_of dpr = Suc i * step_of dpr"
    by simp
  have row: "map position (scan_row d dpr rnd (i * step_of dpr) 0 ps) =
           map position ps @
           map (\<lambda>x. (real x, real (i * step_of dpr)))
             (filter (\<lambda>x. lit d x (i * step_of dpr)) (grid (img_width d) (step_of dpr)))"
    using scan_row_positions [of 0 d dpr rnd "i * step_of dpr" ps] by (simp add: grid_def)
  show ?case
    using below lt
    by (subst scan_rows.simps)
       (simp only: next_y Suc.hyps(1) [OF m le] if_True row,
        simp add: upt_conv_Cons)
qed

lemma four_bytes:
  "(case zs of [r, g, b, a] \<Rightarrow> P a | _ \<Rightarrow> False) = (length zs = 4 \<and> P (zs ! 3))"
  by (auto split: list.splits)

lemma lit_alpha:
  "lit \<lparr> img_width = w, img_height = h, img_data = pixels \<rparr> x y = alpha_exceeds_200 pixels w x y"
proof -
  have idx: "y * 4 * w + x * 4 + 3 = 4 * (y * w + x) + 3"
    by (simp add: algebra_simps)
  show ?thesis
  proof (cases "4 * (y * w + x) + 3 < length pixels")
    case True
    then have "length (take 4 (drop (4 * (y * w + x)) pixels)) = 4"
      by simp
    moreover have "take 4 (drop (4 * (y * w + x)) pixels) ! 3 = pixels ! (4 * (y * w + x) + 3)"
      using True by simp
    ultimately show ?thesis
      using True
      by (simp add: lit_def alpha_exceeds_200_def cell_def four_bytes Let_def idx word_less_nat_alt)
  next
    case False
    then have "length (take 4 (drop (4 * (y * w + x)) pixels)) \<noteq> 4"
      by simp
    then show ?thesis
      using False by (simp add: lit_def alpha_exceeds_200_def cell_def four_bytes Let_def idx)
  qed
qed

lemma sample_points_real:
  "map (\<lambda>(x, y). (real x, real y)) (sample_points w h pixels step) =
     concat (map (\<lambda>y. map (\<lambda>x. (real x, real y))
                   (filter (\<lambda>x. alpha_exceeds_200 pixels w x y) (grid w step)))
               (grid h step))"
  by (simp add: sample_points_def map_concat comp_def)

lemma createParticles_positions:
  "map position (particles (createParticles s dpr pixels rnd)) =
     map (\<lambda>(x, y). (real x, real y))
       (sample_points (canvas_width s) (canvas_height s) pixels (step_of dpr))"
  using scan_rows_positions [of 0 "\<lparr> img_width = canvas_width s, img_height = canvas_height s, img_data = pixels \<rparr>" dpr rnd "[]"]
  by (simp add: createParticles_def Let_def sample_points_real grid_def lit_alpha)

lemma grid_members:
  assumes "0 < step"
  shows "set (grid n step) = {x. x < n \<and> step dvd x}"
proof -
  have "x \<in> set (grid n step) \<longleftrightarrow> x < n \<and> step dvd x" for x
  proof
    assume "x \<in> set (grid n step)"
    then have "\<exists>i. x = i * step \<and> i < (n + step - 1) div step"
      unfolding grid_def by auto
    then obtain i where "x = i * step" "i < (n + step - 1) div step"
      by blast
    then show "x < n \<and> step dvd x"
      using below_iff_index [OF assms, of i n] by simp
  next
    assume a: "x < n \<and> step dvd x"
    then obtain i where i: "x = i * step"
      by (auto simp: dvd_def mult.commute)
    with a have "i < (n + step - 1) div step"
      using below_iff_index [OF assms, of i n] by simp
    with i show "x \<in> set (grid n step)"
      by (auto simp: grid_def)
  qed
  then show ?thesis
    by auto
qed

lemma grid_increasing:
  assumes "0 < step"
  shows "sorted_wrt (<) (grid n step)"
  using assms by (simp add: grid_def sorted_wrt_map sorted_wrt_iff_nth_less)

text \<open>The stride for two pixel ratios that are doubles: \<open>0.75\<close>, and the double just below \<open>2/3\<close>.\<close>

lemma floor_log2:
  assumes "0 < x" and "2 powr of_int k \<le> x" and "x < 2 powr (of_int k + 1)"
  shows "\<lfloor>log 2 x\<rfloor> = k"
proof (rule floor_unique)
  show "of_int k \<le> log 2 x"
    using assms by (simp add: le_log_iff)
  show "log 2 x < of_int k + 1"
    using assms by (simp add: log_less_iff)
qed

lemma round_double_9_4: "round_double (9 / 4) = 9 / 4"
proof -
  have e: "\<lfloor>log 2 (9 / 4 :: real)\<rfloor> = 1"
    by (rule floor_log2) simp_all
  have u: "(2::real) powi (1 - 52) = 1 / 2251799813685248"
    by (simp add: power_int_def power_divide)
  have r: "round_half_even 5066549580791808 = 5066549580791808"
    by (simp add: round_half_even_def)
  show ?thesis
    by (simp add: round_double_def e u r)
qed

lemma step_of_three_quarters: "step_of (3 / 4) = 2"
  by (simp add: step_of_def round_double_9_4)

lemma round_double_tie: "round_double (18014398509481983 / 9007199254740992) = 2"
proof -
  have e: "\<lfloor>log 2 (18014398509481983 / 9007199254740992 :: real)\<rfloor> = 0"
    by (rule floor_log2) simp_all
  have u: "(2::real) powi (0 - 52) = 1 / 4503599627370496"
    by (simp add: power_int_def power_divide)
  have f: "\<lfloor>18014398509481983 / 2 :: real\<rfloor> = 9007199254740991"
    by simp
  have r: "round_half_even (18014398509481983 / 2) = 9007199254740992"
    by (simp add: round_half_even_def f)
  show ?thesis
    by (simp add: round_double_def e u r)
qed

lemma step_of_below_two_thirds: "step_of (6004799503160661 / 9007199254740992) = 2"
  by (simp add: step_of_def round_double_tie)

text \<open>
  C9. Two sampling runs on canvases of the same dimensions, with the same device pixel
  ratio and the same rasterised pixels, produce the same sequence of particle positions,
  whatever the earlier field states and the random streams were. The sequence is the
  specification's \<open>sample_points\<close>: the stride grid with stride
  \<open>max 1 \<lfloor>3 \<cdot> devicePixelRatio\<rfloor>\<close> (the product as the machine rounds it), walked row by
  row, with a point exactly at the cells whose alpha byte exceeds 200.
\<close>

theorem sampling_deterministic:
  assumes "canvas_width s1 = canvas_width s2" and "canvas_height s1 = canvas_height s2"
  shows "map position (particles (createParticles s1 dpr pixels rnd1))
           = map position (particles (createParticles s2 dpr pixels rnd2))
       \<and> map position (particles (createParticles s1 dpr pixels rnd1))
           = map (\<lambda>(x, y). (real x, real y))
               (sample_points (canvas_width s1) (canvas_height s1) pixels
                  (nat (max 1 \<lfloor>round_double (3 * dpr)\<rfloor>)))"
  using assms by (simp add: createParticles_positions step_of_def)

theorem sampling_deterministic_witness:
  "canvas_width (CreditLink 3 3 []) = canvas_width (exploding_field\<lparr> canvas_width := 3, canvas_height := 3 \<rparr>)
   \<and> canvas_height (CreditLink 3 3 []) = canvas_height (exploding_field\<lparr> canvas_width := 3, canvas_height := 3 \<rparr>)
   \<and> map position (particles (createParticles (CreditLink 3 3 []) (3/4) test_pixels rnd_zero))
       = [(0, 0), (0, 2)]
   \<and> map position (particles (createParticles (exploding_field\<lparr> canvas_width := 3, canvas_height := 3 \<rparr>)
         (3/4) test_pixels rnd_zero))
       = [(0, 0), (0, 2)]"
proof -
  let ?s1 = "CreditLink 3 3 []"
  let ?s2 = "exploding_field\<lparr> canvas_width := 3, canvas_height := 3 \<rparr>"
  have w: "canvas_width ?s1 = canvas_width ?s2" and h: "canvas_height ?s1 = canvas_height ?s2"
    by (simp_all add: CreditLink_def)
  have "[0..<2] = [0, Suc 0]"
    by (simp add: upt_conv_Cons)
  then have g: "grid 3 2 = [0, 2]"
    by (simp add: grid_def)
  have c: "alpha_exceeds_200 test_pixels 3 0 0" "\<not> alpha_exceeds_200 test_pixels 3 2 0"
    "alpha_exceeds_200 test_pixels 3 0 2" "\<not> alpha_exceeds_200 test_pixels 3 2 2"
    by (simp_all add: alpha_exceeds_200_def cell_def test_pixels_def)
  have sp: "sample_points (canvas_width ?s1) (canvas_height ?s1) test_pixels
              (nat (max 1 \<lfloor>round_double (3 * (3/4))\<rfloor>))
            = [(0, 0), (0, 2)]"
    by (simp add: round_double_9_4 sample_points_def CreditLink_def g c)
  note det = sampling_deterministic [OF w h, of "3/4" test_pixels rnd_zero rnd_zero]
  from det have same: "map position (particles (createParticles ?s1 (3/4) test_pixels rnd_zero))
           = map position (particles (createParticles ?s2 (3/4) test_pixels rnd_zero))"
    by (rule conjunct1)
  from det have "map position (particles (createParticles ?s1 (3/4) test_pixels rnd_zero))
           = map (\<lambda>(x, y). (real x, real y))
               (sample_points (canvas_width ?s1) (canvas_height ?s1) test_pixels
                  (nat (max 1 \<lfloor>round_double (3 * (3/4))\<rfloor>)))"
    by (rule conjunct2)
  then have one: "map position (particles (createParticles ?s1 (3/4) test_pixels rnd_zero))
           = [(0, 0), (0, 2)]"
    by (simp only: sp) simp
  from same one have two: "map position (particles (createParticles ?s2 (3/4) test_pixels rnd_zero))
           = [(0, 0), (0, 2)]"
    by simp
  from w h one two show ?thesis
    by blast
qed

end
